theory Spec2Isabelle
  imports Main
begin

section \<open>Optimistic social counters of ProfileCard.tsx and the media hooks\<close>

text \<open>
  The components keep their data in React state cells (\<^verbatim>\<open>useState\<close>) and change it
  only through the setters. A handler is a closure of one render: it reads the state
  values of that render (its snapshot) and calls setters; an \<^verbatim>\<open>async\<close> handler runs up
  to its \<^verbatim>\<open>await\<close>, and resumes when the awaited promise settles. The model writes
  every handler as the list of actions it performs, in program order, as a function of
  the snapshot: the segment before the \<^verbatim>\<open>await\<close> (suffix \<open>_sync\<close>) and the
  segment after it (suffix \<open>_resume\<close>), the latter a function of how the promise
  settled. Counters are JavaScript numbers holding integers; they are modelled as
  \<open>int\<close>, which is exact below \<open>2^53\<close>. A string is the list of its UTF-16 code units,
  for the strings all of whose code units are below 256: a \<open>char\<close> stands for the code
  unit of its value.
\<close>

subsection \<open>Rows, responses and promises\<close>

text \<open>\<^verbatim>\<open>interface Comment\<close> of ProfileCard.tsx; the field \<^verbatim>\<open>id\<close> is named
  \<open>comment_id\<close>.\<close>

record comment =
  comment_id :: string
  content :: string
  user_id :: string
  created_at :: "string option"

text \<open>A row of the table \<^verbatim>\<open>comments\<close> as the store returns it (\<^verbatim>\<open>interface Comment\<close>
  of lib/supabase.ts).\<close>

record comment_row =
  row_id :: string
  row_user_id :: string
  row_profile_id :: string
  row_content :: string
  row_created_at :: string

text \<open>
  What an awaited query evaluates to: the object \<^verbatim>\<open>{ data, error, count }\<close> that the
  source destructures (\<^verbatim>\<open>const { data } = await ...\<close> in \<^verbatim>\<open>addComment\<close>,
  \<^verbatim>\<open>const { data: mediaData, error: mediaError } = await query\<close> followed by
  \<^verbatim>\<open>if (mediaError) throw mediaError\<close> in \<^verbatim>\<open>fetchMedia\<close>, \<^verbatim>\<open>likesRes.count\<close> in
  \<^verbatim>\<open>fetchCounts\<close>). A failed operation is reported in \<open>error\<close>, with \<open>data\<close>
  and \<open>count\<close> null.
\<close>

record 'd response =
  data :: "'d option"
  error :: "string option"
  count :: "nat option"

text \<open>An awaited promise either fulfils with a value or rejects; a rejection is what
  \<^verbatim>\<open>try { await ... } catch (error) { ... }\<close> catches.\<close>

datatype 'a settled = Fulfilled 'a | Rejected string

text \<open>How an \<^verbatim>\<open>async\<close> function ends: it returns, or its promise rejects.\<close>

datatype completion = Returns | Throws string

text \<open>The remote operation failed: the promise rejected, or it fulfilled with the
  \<open>error\<close> field set.\<close>

definition failed :: "'d response settled \<Rightarrow> bool" where
  "failed out = (case out of Rejected e \<Rightarrow> True | Fulfilled r \<Rightarrow> error r \<noteq> None)"

definition succeeded :: "'d response settled \<Rightarrow> bool" where
  "succeeded out = (case out of Rejected e \<Rightarrow> False | Fulfilled r \<Rightarrow> error r = None)"

subsection \<open>Queries and actions\<close>

text \<open>A query built with \<^verbatim>\<open>supabase.from(table)\<close>: the operation, the table, and the
  columns given to \<^verbatim>\<open>.eq\<close> or to \<^verbatim>\<open>.insert\<close>, in source order.\<close>

datatype verb =
  Delete_rows | Insert_row | Insert_select_single
  | Select_count | Select_maybe_single | Select_ordered

datatype query = Query verb string "(string \<times> string) list"

text \<open>What a handler does, in program order: a call of a state setter (with a value, or
  for \<^verbatim>\<open>setComments\<close> with an updater function of the previous value), a query sent
  to the store, a line written with \<^verbatim>\<open>console.error\<close>, a channel subscribed or
  unsubscribed.\<close>

datatype action =
  SetLikesCount int
  | SetFollowsCount int
  | SetCommentsCount int
  | SetIsLiked bool
  | SetIsFollowing bool
  | SetShowComments bool
  | SetComments "comment list \<Rightarrow> comment list"
  | SetNewComment string
  | SetLoading bool
  | Send query
  | ConsoleError string
  | Subscribe string
  | Unsubscribe string

fun is_send :: "action \<Rightarrow> bool" where
  "is_send (Send q) = True"
| "is_send a = False"



text \<open>The queries among a list of actions, in order.\<close>

fun queries_of :: "action list \<Rightarrow> query list" where
  "queries_of [] = []"
| "queries_of (Send q # as) = q # queries_of as"
| "queries_of (a # as) = queries_of as"

fun is_setter :: "action \<Rightarrow> bool" where
  "is_setter (Send q) = False"
| "is_setter (ConsoleError m) = False"
| "is_setter (Subscribe ch) = False"
| "is_setter (Unsubscribe ch) = False"
| "is_setter a = True"

subsection \<open>ProfileCard: props and state\<close>

record props =
  profile_id :: string
  currentUserId :: string

record card_state =
  likesCount :: int
  followsCount :: int
  commentsCount :: int
  isLiked :: bool
  isFollowing :: bool
  showComments :: bool
  comments :: "comment list"
  newComment :: string

text \<open>The initial values given to \<^verbatim>\<open>useState\<close>.\<close>

definition initial_state :: card_state where
  "initial_state =
     \<lparr>likesCount = 0, followsCount = 0, commentsCount = 0, isLiked = False,
      isFollowing = False, showComments = False, comments = [], newComment = []\<rparr>"

text \<open>React applies a setter call to the state cell it belongs to; the other actions
  leave the state as it is.\<close>

fun set_state :: "action \<Rightarrow> card_state \<Rightarrow> card_state" where
  "set_state (SetLikesCount n) s = s\<lparr>likesCount := n\<rparr>"
| "set_state (SetFollowsCount n) s = s\<lparr>followsCount := n\<rparr>"
| "set_state (SetCommentsCount n) s = s\<lparr>commentsCount := n\<rparr>"
| "set_state (SetIsLiked b) s = s\<lparr>isLiked := b\<rparr>"
| "set_state (SetIsFollowing b) s = s\<lparr>isFollowing := b\<rparr>"
| "set_state (SetShowComments b) s = s\<lparr>showComments := b\<rparr>"
| "set_state (SetComments f) s = s\<lparr>comments := f (comments s)\<rparr>"
| "set_state (SetNewComment t) s = s\<lparr>newComment := t\<rparr>"
| "set_state a s = s"

fun set_states :: "action list \<Rightarrow> card_state \<Rightarrow> card_state" where
  "set_states [] s = s"
| "set_states (a # as) s = set_states as (set_state a s)"

subsection \<open>ProfileCard: toggleLike and toggleFollow\<close>

text \<open>
  \<^verbatim>\<open>toggleLike\<close> up to its \<^verbatim>\<open>await\<close>: \<^verbatim>\<open>previousLiked\<close> and \<^verbatim>\<open>previousCount\<close> are
  the snapshot's \<open>isLiked\<close> and \<open>likesCount\<close>; both setters are called with values
  computed from the snapshot; then the delete or the insert is sent.
\<close>

definition toggleLike_sync :: "props \<Rightarrow> card_state \<Rightarrow> action list" where
  "toggleLike_sync p snap =
     [SetIsLiked (\<not> isLiked snap),
      SetLikesCount (if isLiked snap then likesCount snap - 1 else likesCount snap + 1),
      Send (if isLiked snap
            then Query Delete_rows ''likes''
                   [(''profile_id'', profile_id p), (''user_id'', currentUserId p)]
            else Query Insert_row ''likes''
                   [(''profile_id'', profile_id p), (''user_id'', currentUserId p)])]"

text \<open>After the \<^verbatim>\<open>await\<close>: the awaited value is not read; only a rejection reaches the
  \<^verbatim>\<open>catch\<close> block, which restores \<^verbatim>\<open>previousLiked\<close> and \<^verbatim>\<open>previousCount\<close>.\<close>

definition toggleLike_resume ::
  "props \<Rightarrow> card_state \<Rightarrow> 'd response settled \<Rightarrow> action list \<times> completion" where
  "toggleLike_resume p snap out =
     (case out of
        Fulfilled r \<Rightarrow> ([], Returns)
      | Rejected e \<Rightarrow> ([SetIsLiked (isLiked snap), SetLikesCount (likesCount snap)], Returns))"

definition toggleFollow_sync :: "props \<Rightarrow> card_state \<Rightarrow> action list" where
  "toggleFollow_sync p snap =
     [SetIsFollowing (\<not> isFollowing snap),
      SetFollowsCount
        (if isFollowing snap then followsCount snap - 1 else followsCount snap + 1),
      Send (if isFollowing snap
            then Query Delete_rows ''follows''
                   [(''following_id'', profile_id p), (''follower_id'', currentUserId p)]
            else Query Insert_row ''follows''
                   [(''following_id'', profile_id p), (''follower_id'', currentUserId p)])]"

definition toggleFollow_resume ::
  "props \<Rightarrow> card_state \<Rightarrow> 'd response settled \<Rightarrow> action list \<times> completion" where
  "toggleFollow_resume p snap out =
     (case out of
        Fulfilled r \<Rightarrow> ([], Returns)
      | Rejected e \<Rightarrow>
          ([SetIsFollowing (isFollowing snap), SetFollowsCount (followsCount snap)], Returns))"

subsection \<open>ProfileCard: addComment\<close>

text \<open>\<^verbatim>\<open>String.prototype.trim\<close> strips the white space and the line terminators of
  ECMAScript from both ends. Of the code units below 256 these are tab (U+0009), line
  feed (U+000A), vertical tab (U+000B), form feed (U+000C), carriage return (U+000D),
  space (U+0020) and no-break space (U+00A0); U+0085 is not among them.\<close>

definition is_space :: "char \<Rightarrow> bool" where
  "is_space ch =
     (ch \<in> set [CHR 0x09, CHR 0x0A, CHR 0x0B, CHR 0x0C, CHR 0x0D, CHR 0x20, CHR 0xA0])"

definition trim :: "string \<Rightarrow> string" where
  "trim t = rev (dropWhile is_space (rev (dropWhile is_space t)))"

text \<open>The decimal digits of a number, as \<^verbatim>\<open>`${n}`\<close> writes a non-negative integer.\<close>

definition digit :: "nat \<Rightarrow> char" where
  "digit d = ''0123456789'' ! d"

function decimal :: "nat \<Rightarrow> string" where
  "decimal n = (if n < 10 then [digit n] else decimal (n div 10) @ [digit (n mod 10)])"
  by pat_completeness auto
termination
  by (relation "measure id") auto



text \<open>\<^verbatim>\<open>`temp-${Date.now()}`\<close>, with the clock's milliseconds as a natural number.\<close>

definition tempId_of :: "nat \<Rightarrow> string" where
  "tempId_of now = ''temp-'' @ decimal now"

text \<open>
  \<^verbatim>\<open>addComment\<close> up to its \<^verbatim>\<open>await\<close>. \<open>now\<close> is \<^verbatim>\<open>Date.now()\<close> and \<open>stamp\<close> is
  \<^verbatim>\<open>new Date().toISOString()\<close>. Nothing happens when the trimmed text is empty.
  \<^verbatim>\<open>setComments\<close> is called with an updater, which React applies to the list as it is
  then; \<^verbatim>\<open>setCommentsCount\<close> is called with a value computed from the snapshot.
\<close>

definition addComment_sync :: "props \<Rightarrow> card_state \<Rightarrow> nat \<Rightarrow> string \<Rightarrow> action list" where
  "addComment_sync p snap now stamp =
     (if trim (newComment snap) = [] then []
      else
        let commentText = trim (newComment snap);
            tempId = tempId_of now;
            optimisticComment =
              \<lparr>comment_id = tempId, content = commentText,
               user_id = currentUserId p, created_at = Some stamp\<rparr>
        in [SetNewComment [],
            SetComments (\<lambda>prev. optimisticComment # prev),
            SetCommentsCount (commentsCount snap + 1),
            Send (Query Insert_select_single ''comments''
                    [(''profile_id'', profile_id p), (''user_id'', currentUserId p),
                     (''content'', commentText)])])"

text \<open>The updater of the success branch: the comment whose id is \<open>tempId\<close> takes the
  row's id and timestamp, every other comment stays.\<close>

definition reconcile :: "string \<Rightarrow> comment_row \<Rightarrow> comment list \<Rightarrow> comment list" where
  "reconcile tempId d prev =
     map (\<lambda>c. if comment_id c = tempId
              then c\<lparr>comment_id := row_id d, created_at := Some (row_created_at d)\<rparr>
              else c) prev"

text \<open>The updater of the \<^verbatim>\<open>catch\<close> block.\<close>

definition discard :: "string \<Rightarrow> comment list \<Rightarrow> comment list" where
  "discard tempId prev = filter (\<lambda>c. comment_id c \<noteq> tempId) prev"

text \<open>After the \<^verbatim>\<open>await\<close>: with \<^verbatim>\<open>data\<close> present the placeholder is reconciled; with
  \<^verbatim>\<open>data\<close> null nothing is done (\<^verbatim>\<open>if (data)\<close> has no \<^verbatim>\<open>else\<close>); a rejection
  reaches the \<^verbatim>\<open>catch\<close> block.\<close>

definition addComment_resume ::
  "card_state \<Rightarrow> string \<Rightarrow> comment_row response settled \<Rightarrow> action list \<times> completion" where
  "addComment_resume snap tempId out =
     (case out of
        Fulfilled r \<Rightarrow>
          (case data r of
             Some d \<Rightarrow> ([SetComments (reconcile tempId d)], Returns)
           | None \<Rightarrow> ([], Returns))
      | Rejected e \<Rightarrow>
          ([SetComments (discard tempId), SetCommentsCount (commentsCount snap)], Returns))"

subsection \<open>ProfileCard: the fetches, the effect and the feed handlers\<close>

text \<open>\<^verbatim>\<open>res.count || 0\<close>: null and 0 both give 0.\<close>

definition or_zero :: "nat option \<Rightarrow> int" where
  "or_zero c = (case c of None \<Rightarrow> 0 | Some n \<Rightarrow> if n = 0 then 0 else int n)"

definition fetchCounts_sync :: "props \<Rightarrow> action list" where
  "fetchCounts_sync p =
     [Send (Query Select_count ''likes'' [(''profile_id'', profile_id p)]),
      Send (Query Select_count ''follows'' [(''following_id'', profile_id p)]),
      Send (Query Select_count ''comments'' [(''profile_id'', profile_id p)])]"

text \<open>\<^verbatim>\<open>await Promise.all([...])\<close> rejects when one of the queries rejects (the model
  reports the first rejected one in array order); the function has no \<^verbatim>\<open>catch\<close>.\<close>

definition fetchCounts_resume ::
  "'a response settled \<Rightarrow> 'b response settled \<Rightarrow> 'c response settled
   \<Rightarrow> action list \<times> completion" where
  "fetchCounts_resume likesOut followsOut commentsOut =
     (case likesOut of
        Rejected e \<Rightarrow> ([], Throws e)
      | Fulfilled likesRes \<Rightarrow>
          (case followsOut of
             Rejected e \<Rightarrow> ([], Throws e)
           | Fulfilled followsRes \<Rightarrow>
               (case commentsOut of
                  Rejected e \<Rightarrow> ([], Throws e)
                | Fulfilled commentsRes \<Rightarrow>
                    ([SetLikesCount (or_zero (count likesRes)),
                      SetFollowsCount (or_zero (count followsRes)),
                      SetCommentsCount (or_zero (count commentsRes))], Returns))))"

definition fetchUserStatus_sync :: "props \<Rightarrow> action list" where
  "fetchUserStatus_sync p =
     [Send (Query Select_maybe_single ''likes''
              [(''profile_id'', profile_id p), (''user_id'', currentUserId p)]),
      Send (Query Select_maybe_single ''follows''
              [(''following_id'', profile_id p), (''follower_id'', currentUserId p)])]"

text \<open>\<^verbatim>\<open>!!res.data\<close>: a row is truthy, null is not.\<close>

definition fetchUserStatus_resume ::
  "'a response settled \<Rightarrow> 'b response settled \<Rightarrow> action list \<times> completion" where
  "fetchUserStatus_resume likeOut followOut =
     (case likeOut of
        Rejected e \<Rightarrow> ([], Throws e)
      | Fulfilled likeRes \<Rightarrow>
          (case followOut of
             Rejected e \<Rightarrow> ([], Throws e)
           | Fulfilled followRes \<Rightarrow>
               ([SetIsLiked (data likeRes \<noteq> None),
                 SetIsFollowing (data followRes \<noteq> None)], Returns)))"

definition fetchComments_sync :: "props \<Rightarrow> action list" where
  "fetchComments_sync p =
     [Send (Query Select_ordered ''comments'' [(''profile_id'', profile_id p)])]"

text \<open>\<^verbatim>\<open>setComments(data || [])\<close>: an array, also an empty one, is truthy.\<close>

definition fetchComments_resume ::
  "comment list response settled \<Rightarrow> action list \<times> completion" where
  "fetchComments_resume out =
     (case out of
        Rejected e \<Rightarrow> ([], Throws e)
      | Fulfilled r \<Rightarrow>
          ([SetComments (\<lambda>prev. case data r of None \<Rightarrow> [] | Some rows \<Rightarrow> rows)], Returns))"

definition channelName :: "props \<Rightarrow> string" where
  "channelName p = ''profile-'' @ profile_id p"

text \<open>The body of \<^verbatim>\<open>useEffect\<close> and the function it returns for the unmount.\<close>

definition effect_body :: "props \<Rightarrow> action list" where
  "effect_body p =
     fetchCounts_sync p @ fetchUserStatus_sync p @ fetchComments_sync p
     @ [Subscribe (channelName p)]"


subsection \<open>A mounted ProfileCard as a transition system\<close>

text \<open>
  Between its mount and its unmount the component reacts to events: the user's clicks
  and key strokes, a notification on one of the three channel filters, and the settling
  of a promise one of its handlers awaits. The event loop runs one handler segment at a
  time, and React renders again before the next event is dispatched, so a handler
  started by an event closes over the state as it is at that event. The configuration
  keeps the state, the awaits that have not settled yet (each with what its closure
  captured), every action performed so far, and the reasons of the promises that rejected
  with nobody to catch them.
\<close>

datatype table = Likes | Follows | Comments

text \<open>What the feed handler that awaited \<^verbatim>\<open>fetchCounts()\<close> calls next.\<close>

datatype fetch_next = No_next | Then_status | Then_comments

datatype inflight =
  Toggle_like card_state
  | Toggle_follow card_state
  | Add_comment card_state string
  | Fetch_counts fetch_next
  | Fetch_status
  | Fetch_comments

datatype outcome =
  Toggle_out "unit response settled"
  | Insert_out "comment_row response settled"
  | Counts_out "unit response settled" "unit response settled" "unit response settled"
  | Status_out "unit response settled" "unit response settled"
  | Comments_out "comment list response settled"

datatype event =
  Click_like
  | Click_follow
  | Click_comments
  | Type_comment string
  | Submit_comment nat string
  | Feed table
  | Settle nat outcome

record config =
  cstate :: card_state
  inflight :: "inflight list"
  trace :: "action list"
  rejections :: "string list"

definition exec :: "action list \<Rightarrow> config \<Rightarrow> config" where
  "exec as c = c\<lparr>cstate := set_states as (cstate c), trace := trace c @ as\<rparr>"

definition await :: "inflight \<Rightarrow> config \<Rightarrow> config" where
  "await w c = c\<lparr>inflight := inflight c @ [w]\<rparr>"

definition finish :: "action list \<times> completion \<Rightarrow> config \<Rightarrow> config" where
  "finish r c =
     (case snd r of
        Returns \<Rightarrow> exec (fst r) c
      | Throws e \<Rightarrow> (exec (fst r) c)\<lparr>rejections := rejections c @ [e]\<rparr>)"

text \<open>The likes and the follows handler are
  \<^verbatim>\<open>async () => { await fetchCounts(); await fetchUserStatus(); }\<close>, the comments handler
  is \<^verbatim>\<open>async () => { await fetchCounts(); await fetchComments(); }\<close>.\<close>

fun handler_next :: "table \<Rightarrow> fetch_next" where
  "handler_next Likes = Then_status"
| "handler_next Follows = Then_status"
| "handler_next Comments = Then_comments"

fun continue_handler :: "props \<Rightarrow> fetch_next \<Rightarrow> config \<Rightarrow> config" where
  "continue_handler p No_next c = c"
| "continue_handler p Then_status c = await Fetch_status (exec (fetchUserStatus_sync p) c)"
| "continue_handler p Then_comments c = await Fetch_comments (exec (fetchComments_sync p) c)"

text \<open>The segment that runs when an await settles; \<open>None\<close> when the outcome is not one
  of that await.\<close>

fun resume :: "props \<Rightarrow> inflight \<Rightarrow> outcome \<Rightarrow> config \<Rightarrow> config option" where
  "resume p (Toggle_like snap) (Toggle_out out) c = Some (finish (toggleLike_resume p snap out) c)"
| "resume p (Toggle_follow snap) (Toggle_out out) c =
     Some (finish (toggleFollow_resume p snap out) c)"
| "resume p (Add_comment snap tempId) (Insert_out out) c =
     Some (finish (addComment_resume snap tempId out) c)"
| "resume p (Fetch_counts nxt) (Counts_out l f k) c =
     (let r = fetchCounts_resume l f k
      in Some (case snd r of
                 Returns \<Rightarrow> continue_handler p nxt (finish r c)
               | Throws e \<Rightarrow> finish r c))"
| "resume p Fetch_status (Status_out l f) c = Some (finish (fetchUserStatus_resume l f) c)"
| "resume p Fetch_comments (Comments_out out) c = Some (finish (fetchComments_resume out) c)"
| "resume p w out c = None"

definition remove_nth :: "nat \<Rightarrow> 'a list \<Rightarrow> 'a list" where
  "remove_nth i xs = take i xs @ drop (Suc i) xs"

fun step :: "props \<Rightarrow> event \<Rightarrow> config \<Rightarrow> config" where
  "step p Click_like c = await (Toggle_like (cstate c)) (exec (toggleLike_sync p (cstate c)) c)"
| "step p Click_follow c =
     await (Toggle_follow (cstate c)) (exec (toggleFollow_sync p (cstate c)) c)"
| "step p Click_comments c = exec [SetShowComments (\<not> showComments (cstate c))] c"
| "step p (Type_comment t) c = exec [SetNewComment t] c"
| "step p (Submit_comment now stamp) c =
     (if trim (newComment (cstate c)) = [] then c
      else await (Add_comment (cstate c) (tempId_of now))
             (exec (addComment_sync p (cstate c) now stamp) c))"
| "step p (Feed t) c = await (Fetch_counts (handler_next t)) (exec (fetchCounts_sync p) c)"
| "step p (Settle i out) c =
     (if i < length (inflight c)
      then (case resume p (inflight c ! i) out (c\<lparr>inflight := remove_nth i (inflight c)\<rparr>) of
              Some c' \<Rightarrow> c'
            | None \<Rightarrow> c)
      else c)"

definition run :: "props \<Rightarrow> event list \<Rightarrow> config \<Rightarrow> config" where
  "run p es c = fold (step p) es c"

text \<open>The component after its first render and the effect: the three fetches are
  started without being awaited, and the channel is subscribed.\<close>

definition mounted :: "props \<Rightarrow> config" where
  "mounted p =
     \<lparr>cstate = initial_state,
      inflight = [Fetch_counts No_next, Fetch_status, Fetch_comments],
      trace = effect_body p,
      rejections = []\<rparr>"





text \<open>The queries sent so far.\<close>

definition sent :: "config \<Rightarrow> action list" where
  "sent c = filter is_send (trace c)"

subsection \<open>The media hooks useMediaLike and useCreatorFollow\<close>

text \<open>The state cells of \<^verbatim>\<open>useMediaLike\<close> (suffix \<open>_m\<close>) and of
  \<^verbatim>\<open>useCreatorFollow\<close> (suffix \<open>_c\<close>). \<open>user\<close> is what \<^verbatim>\<open>useAuth()\<close> gives: the
  user's id, or \<open>None\<close> when nobody is signed in.\<close>

record like_state =
  isLiked_m :: bool
  likesCount_m :: int
  loading_m :: bool

record follow_state =
  isFollowing_c :: bool
  followsCount_c :: int
  loading_c :: bool

fun set_like :: "action \<Rightarrow> like_state \<Rightarrow> like_state" where
  "set_like (SetIsLiked b) s = s\<lparr>isLiked_m := b\<rparr>"
| "set_like (SetLikesCount n) s = s\<lparr>likesCount_m := n\<rparr>"
| "set_like (SetLoading b) s = s\<lparr>loading_m := b\<rparr>"
| "set_like a s = s"

fun set_follow :: "action \<Rightarrow> follow_state \<Rightarrow> follow_state" where
  "set_follow (SetIsFollowing b) s = s\<lparr>isFollowing_c := b\<rparr>"
| "set_follow (SetFollowsCount n) s = s\<lparr>followsCount_c := n\<rparr>"
| "set_follow (SetLoading b) s = s\<lparr>loading_c := b\<rparr>"
| "set_follow a s = s"

text \<open>\<^verbatim>\<open>useMediaLike.toggleLike\<close> up to its \<^verbatim>\<open>await\<close>: \<^verbatim>\<open>if (!user) return\<close> comes
  first; \<^verbatim>\<open>loading\<close> is set but never read.\<close>

definition toggleLike_m_sync :: "string \<Rightarrow> string option \<Rightarrow> like_state \<Rightarrow> action list" where
  "toggleLike_m_sync mediaId user snap =
     (case user of
        None \<Rightarrow> []
      | Some uid \<Rightarrow>
          [SetIsLiked (\<not> isLiked_m snap),
           SetLikesCount
             (if isLiked_m snap then likesCount_m snap - 1 else likesCount_m snap + 1),
           SetLoading True,
           Send (if isLiked_m snap
                 then Query Delete_rows ''media_likes''
                        [(''media_id'', mediaId), (''user_id'', uid)]
                 else Query Insert_row ''media_likes''
                        [(''media_id'', mediaId), (''user_id'', uid)])])"

text \<open>After the \<^verbatim>\<open>await\<close>: the \<^verbatim>\<open>catch\<close> block rolls back and logs, the
  \<^verbatim>\<open>finally\<close> block runs in both cases.\<close>

definition toggleLike_m_resume ::
  "like_state \<Rightarrow> 'd response settled \<Rightarrow> action list \<times> completion" where
  "toggleLike_m_resume snap out =
     (case out of
        Fulfilled r \<Rightarrow> ([SetLoading False], Returns)
      | Rejected e \<Rightarrow>
          ([SetIsLiked (isLiked_m snap), SetLikesCount (likesCount_m snap),
            ConsoleError ''Error toggling like:'', SetLoading False], Returns))"

definition toggleFollow_c_sync ::
  "string \<Rightarrow> string option \<Rightarrow> follow_state \<Rightarrow> action list" where
  "toggleFollow_c_sync creatorId user snap =
     (case user of
        None \<Rightarrow> []
      | Some uid \<Rightarrow>
          [SetIsFollowing (\<not> isFollowing_c snap),
           SetFollowsCount
             (if isFollowing_c snap then followsCount_c snap - 1 else followsCount_c snap + 1),
           SetLoading True,
           Send (if isFollowing_c snap
                 then Query Delete_rows ''creator_follows''
                        [(''creator_id'', creatorId), (''follower_id'', uid)]
                 else Query Insert_row ''creator_follows''
                        [(''creator_id'', creatorId), (''follower_id'', uid)])])"

definition toggleFollow_c_resume ::
  "follow_state \<Rightarrow> 'd response settled \<Rightarrow> action list \<times> completion" where
  "toggleFollow_c_resume snap out =
     (case out of
        Fulfilled r \<Rightarrow> ([SetLoading False], Returns)
      | Rejected e \<Rightarrow>
          ([SetIsFollowing (isFollowing_c snap), SetFollowsCount (followsCount_c snap),
            ConsoleError ''Error toggling follow:'', SetLoading False], Returns))"

text \<open>\<^verbatim>\<open>checkLikeStatus\<close>, which is also all the feed handler of the hook calls.\<close>

definition checkLikeStatus_sync :: "string \<Rightarrow> string option \<Rightarrow> action list" where
  "checkLikeStatus_sync mediaId user =
     (case user of
        None \<Rightarrow> []
      | Some uid \<Rightarrow>
          [Send (Query Select_maybe_single ''media_likes''
                   [(''media_id'', mediaId), (''user_id'', uid)]),
           Send (Query Select_count ''media_likes'' [(''media_id'', mediaId)])])"

definition checkLikeStatus_resume ::
  "'a response settled \<Rightarrow> 'b response settled \<Rightarrow> action list \<times> completion" where
  "checkLikeStatus_resume likeOut countOut =
     (case likeOut of
        Rejected e \<Rightarrow> ([], Throws e)
      | Fulfilled likeRes \<Rightarrow>
          (case countOut of
             Rejected e \<Rightarrow> ([], Throws e)
           | Fulfilled countRes \<Rightarrow>
               ([SetIsLiked (data likeRes \<noteq> None),
                 SetLikesCount (or_zero (count countRes))], Returns)))"

definition like_cleanup :: "string \<Rightarrow> action list" where
  "like_cleanup mediaId = [Unsubscribe (''media-likes-'' @ mediaId)]"

definition checkFollowStatus_sync :: "string \<Rightarrow> string option \<Rightarrow> action list" where
  "checkFollowStatus_sync creatorId user =
     (case user of
        None \<Rightarrow> []
      | Some uid \<Rightarrow>
          [Send (Query Select_maybe_single ''creator_follows''
                   [(''creator_id'', creatorId), (''follower_id'', uid)]),
           Send (Query Select_count ''creator_follows'' [(''creator_id'', creatorId)])])"

definition checkFollowStatus_resume ::
  "'a response settled \<Rightarrow> 'b response settled \<Rightarrow> action list \<times> completion" where
  "checkFollowStatus_resume followOut countOut =
     (case followOut of
        Rejected e \<Rightarrow> ([], Throws e)
      | Fulfilled followRes \<Rightarrow>
          (case countOut of
             Rejected e \<Rightarrow> ([], Throws e)
           | Fulfilled countRes \<Rightarrow>
               ([SetIsFollowing (data followRes \<noteq> None),
                 SetFollowsCount (or_zero (count countRes))], Returns)))"

definition follow_cleanup :: "string \<Rightarrow> action list" where
  "follow_cleanup creatorId = [Unsubscribe (''creator-follows-'' @ creatorId)]"

fun set_likes :: "action list \<Rightarrow> like_state \<Rightarrow> like_state" where
  "set_likes [] s = s"
| "set_likes (a # as) s = set_likes as (set_like a s)"

fun set_follows :: "action list \<Rightarrow> follow_state \<Rightarrow> follow_state" where
  "set_follows [] s = s"
| "set_follows (a # as) s = set_follows as (set_follow a s)"

subsection \<open>The unmount\<close>



subsection \<open>The table likes\<close>

text \<open>
  The migration creates \<^verbatim>\<open>likes\<close> with the columns \<^verbatim>\<open>user_id\<close> and \<^verbatim>\<open>profile_id\<close>
  (and a generated id and timestamp, left out here) and the constraint
  \<^verbatim>\<open>UNIQUE(user_id, profile_id)\<close>. An insert that would break the constraint changes
  nothing and answers with an error; the exact count is the number of rows of the
  profile; the maybe-single select gives the row of the pair when there is one.
\<close>

type_synonym likes_table = "(string \<times> string) list"


definition likes_total :: "string \<Rightarrow> likes_table \<Rightarrow> nat" where
  "likes_total pid t = length (filter (\<lambda>r. snd r = pid) t)"



subsection \<open>The store answering the count queries\<close>

text \<open>
  The three tables the card counts: \<^verbatim>\<open>likes\<close> as rows (user_id, profile_id),
  \<^verbatim>\<open>follows\<close> as rows (follower_id, following_id), and the rows of \<^verbatim>\<open>comments\<close>.
  A select with \<^verbatim>\<open>{ count: 'exact' }\<close> and one \<^verbatim>\<open>.eq(column, value)\<close> is answered
  with the number of rows whose column has the value; any other query gets an error
  here (PostgreSQL's code 42703, an unknown column).
\<close>

record store =
  likes :: likes_table
  follows :: "(string \<times> string) list"
  comment_rows :: "comment_row list"

definition rows_counted :: "store \<Rightarrow> string \<Rightarrow> string \<Rightarrow> string \<Rightarrow> nat option" where
  "rows_counted st tbl col x =
     (if tbl = ''likes'' \<and> col = ''profile_id'' then Some (likes_total x (likes st))
      else if tbl = ''follows'' \<and> col = ''following_id''
      then Some (length (filter (\<lambda>r. snd r = x) (follows st)))
      else if tbl = ''comments'' \<and> col = ''profile_id''
      then Some (length (filter (\<lambda>r. row_profile_id r = x) (comment_rows st)))
      else None)"

definition answer_count :: "store \<Rightarrow> query \<Rightarrow> unit response" where
  "answer_count st q =
     (case q of
        Query Select_count tbl [(col, x)] \<Rightarrow>
          (case rows_counted st tbl col x of
             Some n \<Rightarrow> \<lparr>data = Some (), error = None, count = Some n\<rparr>
           | None \<Rightarrow> \<lparr>data = None, error = Some ''42703'', count = None\<rparr>)
      | _ \<Rightarrow> \<lparr>data = None, error = Some ''42703'', count = None\<rparr>)"

text \<open>
  A notification on the filter of table \<open>t\<close>, answered by the store in the state
  \<open>st\<close>: the handler starts; the store answers the queries the handler has just sent;
  with three answers the handler's await settles (it is the last one added).
\<close>

definition refetch :: "props \<Rightarrow> table \<Rightarrow> store \<Rightarrow> config \<Rightarrow> config" where
  "refetch p t st c =
     (let c1 = step p (Feed t) c;
          answers = map (answer_count st) (queries_of (drop (length (trace c)) (trace c1)))
      in case answers of
           [l, f, k] \<Rightarrow>
             step p (Settle (length (inflight c))
                       (Counts_out (Fulfilled l) (Fulfilled f) (Fulfilled k))) c1
         | _ \<Rightarrow> c1)"

subsection \<open>Counters that are not negative\<close>

definition counts_ok :: "card_state \<Rightarrow> bool" where
  "counts_ok s = (0 \<le> likesCount s \<and> 0 \<le> followsCount s \<and> 0 \<le> commentsCount s)"

text \<open>A click that un-likes (un-follows) is allowed when the count it decrements is at
  least 1; every other event is allowed.\<close>

fun toggle_allowed :: "event \<Rightarrow> card_state \<Rightarrow> bool" where
  "toggle_allowed Click_like s = (if isLiked s then 1 \<le> likesCount s else True)"
| "toggle_allowed Click_follow s = (if isFollowing s then 1 \<le> followsCount s else True)"
| "toggle_allowed e s = True"

fun guarded :: "props \<Rightarrow> event list \<Rightarrow> config \<Rightarrow> bool" where
  "guarded p [] c = True"
| "guarded p (e # es) c = (toggle_allowed e (cstate c) \<and> guarded p es (step p e c))"

text \<open>The state a closure captured.\<close>

fun snapshot :: "inflight \<Rightarrow> card_state option" where
  "snapshot (Toggle_like snap) = Some snap"
| "snapshot (Toggle_follow snap) = Some snap"
| "snapshot (Add_comment snap tempId) = Some snap"
| "snapshot w = None"

definition snapshots_ok :: "inflight list \<Rightarrow> bool" where
  "snapshots_ok ws = list_all (\<lambda>w. case snapshot w of None \<Rightarrow> True | Some snap \<Rightarrow> counts_ok snap) ws"

subsection \<open>Concrete values\<close>

text \<open>A card of profile p1 shown to user u1, a response that reports success, and the
  response to an insert that breaks a unique constraint (PostgreSQL's code 23505).\<close>

definition card_p1 :: props where
  "card_p1 = \<lparr>profile_id = ''p1'', currentUserId = ''u1''\<rparr>"

definition no_error :: "'d response" where
  "no_error = \<lparr>data = None, error = None, count = None\<rparr>"

definition unique_violation :: "'d response" where
  "unique_violation = \<lparr>data = None, error = Some ''23505'', count = None\<rparr>"

text \<open>Two rows of \<^verbatim>\<open>comments\<close> as the store returns them; the row of the comment
  \<^verbatim>\<open>B\<close> carries the earlier timestamp.\<close>

definition row_a1 :: comment_row where
  "row_a1 =
     \<lparr>row_id = ''a1'', row_user_id = ''u1'', row_profile_id = ''p1'', row_content = ''A'',
      row_created_at = ''2024-05-01T10:00:00.200Z''\<rparr>"

definition row_b2 :: comment_row where
  "row_b2 =
     \<lparr>row_id = ''b2'', row_user_id = ''u1'', row_profile_id = ''p1'', row_content = ''B'',
      row_created_at = ''2024-05-01T10:00:00.100Z''\<rparr>"


text \<open>A store in which three users like profile p1 and one follows it.\<close>

definition store_p1 :: store where
  "store_p1 =
     \<lparr>likes = [(''u1'', ''p1''), (''u2'', ''p1''), (''u3'', ''p2''), (''u4'', ''p1'')],
      follows = [(''u2'', ''p1'')],
      comment_rows = []\<rparr>"

text \<open>The response to a query that did not reach the store.\<close>

definition fetch_failed :: "'d response" where
  "fetch_failed = \<lparr>data = None, error = Some ''TypeError: Failed to fetch'', count = None\<rparr>"

subsection \<open>What every event keeps when no un-like starts at zero\<close>

definition counts_invariant :: "config \<Rightarrow> bool" where
  "counts_invariant c = (counts_ok (cstate c) \<and> snapshots_ok (inflight c))"

section \<open>Properties\<close>

subsection \<open>How the transition system moves\<close>

lemma run_Nil: "run p [] c = c"
  by (simp add: run_def)

lemma run_Cons: "run p (e # es) c = run p es (step p e c)"
  by (simp add: run_def)

lemma remove_nth_last: "remove_nth (length xs) (xs @ [x]) = xs"
  by (simp add: remove_nth_def)

lemma exec_sel:
  "cstate (exec as c) = set_states as (cstate c)"
  "inflight (exec as c) = inflight c"
  "trace (exec as c) = trace c @ as"
  "rejections (exec as c) = rejections c"
  by (simp_all add: exec_def)

lemma await_sel:
  "cstate (await w c) = cstate c"
  "inflight (await w c) = inflight c @ [w]"
  "trace (await w c) = trace c"
  "rejections (await w c) = rejections c"
  by (simp_all add: await_def)

lemma finish_Returns: "finish (as, Returns) c = exec as c"
  by (simp add: finish_def)

lemma finish_Throws: "finish (as, Throws e) c = (exec as c)\<lparr>rejections := rejections c @ [e]\<rparr>"
  by (simp add: finish_def)

lemma await_withdraw: "(await w c)\<lparr>inflight := ws\<rparr> = c\<lparr>inflight := ws\<rparr>"
  by (simp add: await_def)

lemma exec_keep_inflight: "(exec as c)\<lparr>inflight := inflight c\<rparr> = exec as c"
  by (simp add: exec_def)

lemma exec_Nil: "exec [] c = c"
  by (simp add: exec_def)

text \<open>A click on the like button followed by the settling of its own await.\<close>

lemma click_like_then_settle:
  "step p (Settle (length (inflight c)) (Toggle_out out)) (step p Click_like c)
   = finish (toggleLike_resume p (cstate c) out) (exec (toggleLike_sync p (cstate c)) c)"
  by (simp add: await_sel exec_sel await_withdraw remove_nth_last exec_keep_inflight)

lemma click_follow_then_settle:
  "step p (Settle (length (inflight c)) (Toggle_out out)) (step p Click_follow c)
   = finish (toggleFollow_resume p (cstate c) out) (exec (toggleFollow_sync p (cstate c)) c)"
  by (simp add: await_sel exec_sel await_withdraw remove_nth_last exec_keep_inflight)

lemma like_round:
  "succeeded out \<Longrightarrow>
   step p (Settle (length (inflight c)) (Toggle_out out)) (step p Click_like c)
   = exec (toggleLike_sync p (cstate c)) c"
  unfolding click_like_then_settle
  by (cases out) (simp_all add: succeeded_def toggleLike_resume_def finish_Returns exec_Nil)

lemma follow_round:
  "succeeded out \<Longrightarrow>
   step p (Settle (length (inflight c)) (Toggle_out out)) (step p Click_follow c)
   = exec (toggleFollow_sync p (cstate c)) c"
  unfolding click_follow_then_settle
  by (cases out) (simp_all add: succeeded_def toggleFollow_resume_def finish_Returns exec_Nil)

lemma like_two_rounds:
  assumes "succeeded o1" and "succeeded o2"
  shows "run p [Click_like, Settle (length (inflight c)) (Toggle_out o1),
                Click_like, Settle (length (inflight c)) (Toggle_out o2)] c
         = exec (toggleLike_sync p (cstate (exec (toggleLike_sync p (cstate c)) c)))
             (exec (toggleLike_sync p (cstate c)) c)"
proof -
  let ?c1 = "exec (toggleLike_sync p (cstate c)) c"
  have len: "length (inflight ?c1) = length (inflight c)"
    by (simp add: exec_sel)
  have a: "step p (Settle (length (inflight c)) (Toggle_out o1)) (step p Click_like c) = ?c1"
    by (rule like_round [OF assms(1)])
  have b: "step p (Settle (length (inflight c)) (Toggle_out o2)) (step p Click_like ?c1)
           = exec (toggleLike_sync p (cstate ?c1)) ?c1"
    using like_round [OF assms(2), of p ?c1] by (simp only: len)
  show ?thesis
    by (simp only: run_Cons run_Nil a b)
qed

lemma follow_two_rounds:
  assumes "succeeded o1" and "succeeded o2"
  shows "run p [Click_follow, Settle (length (inflight c)) (Toggle_out o1),
                Click_follow, Settle (length (inflight c)) (Toggle_out o2)] c
         = exec (toggleFollow_sync p (cstate (exec (toggleFollow_sync p (cstate c)) c)))
             (exec (toggleFollow_sync p (cstate c)) c)"
proof -
  let ?c1 = "exec (toggleFollow_sync p (cstate c)) c"
  have len: "length (inflight ?c1) = length (inflight c)"
    by (simp add: exec_sel)
  have a: "step p (Settle (length (inflight c)) (Toggle_out o1)) (step p Click_follow c) = ?c1"
    by (rule follow_round [OF assms(1)])
  have b: "step p (Settle (length (inflight c)) (Toggle_out o2)) (step p Click_follow ?c1)
           = exec (toggleFollow_sync p (cstate ?c1)) ?c1"
    using follow_round [OF assms(2), of p ?c1] by (simp only: len)
  show ?thesis
    by (simp only: run_Cons run_Nil a b)
qed

lemma sent_exec: "sent (exec as c) = sent c @ filter is_send as"
  by (simp add: sent_def exec_sel)

lemma sent_await: "sent (await w c) = sent c"
  by (simp add: sent_def await_sel)

lemma cstate_continue_handler: "cstate (continue_handler p nxt c) = cstate c"
  by (cases nxt) (simp_all add: await_sel exec_sel fetchUserStatus_sync_def fetchComments_sync_def)

lemma or_zero_Some: "or_zero (Some n) = int n"
  by (simp add: or_zero_def)

text \<open>When an awaited \<^verbatim>\<open>fetchCounts\<close> settles with three fulfilled queries, the three
  counters are overwritten, whatever they were.\<close>

lemma counts_settled:
  assumes "i < length (inflight c)" and "inflight c ! i = Fetch_counts nxt"
  shows "cstate (step p (Settle i (Counts_out (Fulfilled lr) (Fulfilled fr) (Fulfilled kr))) c)
         = (cstate c)\<lparr>likesCount := or_zero (count lr), followsCount := or_zero (count fr),
              commentsCount := or_zero (count kr)\<rparr>"
  using assms
  by (simp add: fetchCounts_resume_def finish_Returns cstate_continue_handler exec_sel)

subsection \<open>Toggling on and off again\<close>

text \<open>
  Claim C2. From a state with \<open>isLiked = False\<close> and \<open>likesCount = N\<close>, a click on
  the like button whose insert succeeds, followed (after that await has settled) by a
  second click whose delete succeeds, ends with \<open>isLiked = False\<close> and
  \<open>likesCount = N\<close>; the same holds for the follow button with \<open>isFollowing\<close> and
  \<open>followsCount\<close>. Other awaits may be in flight meanwhile: the index
  \<open>length (inflight c)\<close> is the one the click's own await gets.
\<close>

theorem toggle_on_then_off_restores:
  assumes "succeeded o1" and "succeeded o2"
    and "isLiked (cstate c) = False" and "likesCount (cstate c) = N"
    and "isFollowing (cstate d) = False" and "followsCount (cstate d) = M"
  shows "isLiked (cstate (run p [Click_like, Settle (length (inflight c)) (Toggle_out o1),
                                 Click_like, Settle (length (inflight c)) (Toggle_out o2)] c)) = False
       \<and> likesCount (cstate (run p [Click_like, Settle (length (inflight c)) (Toggle_out o1),
                                    Click_like, Settle (length (inflight c)) (Toggle_out o2)] c)) = N
       \<and> isFollowing (cstate (run p [Click_follow, Settle (length (inflight d)) (Toggle_out o1),
                                     Click_follow, Settle (length (inflight d)) (Toggle_out o2)] d)) = False
       \<and> followsCount (cstate (run p [Click_follow, Settle (length (inflight d)) (Toggle_out o1),
                                       Click_follow, Settle (length (inflight d)) (Toggle_out o2)] d)) = M"
  unfolding like_two_rounds [OF assms(1,2)] follow_two_rounds [OF assms(1,2)]
  using assms(3-6) by (simp add: exec_sel toggleLike_sync_def toggleFollow_sync_def)

theorem toggle_on_then_off_restores_witness:
  "succeeded (Fulfilled (no_error :: unit response))
   \<and> isLiked (cstate (mounted card_p1)) = False \<and> likesCount (cstate (mounted card_p1)) = 0
   \<and> isFollowing (cstate (mounted card_p1)) = False
   \<and> followsCount (cstate (mounted card_p1)) = 0
   \<and> isLiked (cstate (run card_p1 [Click_like, Settle 3 (Toggle_out (Fulfilled no_error)),
                                    Click_like, Settle 3 (Toggle_out (Fulfilled no_error))]
                        (mounted card_p1))) = False
   \<and> likesCount (cstate (run card_p1 [Click_like, Settle 3 (Toggle_out (Fulfilled no_error)),
                                    Click_like, Settle 3 (Toggle_out (Fulfilled no_error))]
                        (mounted card_p1))) = 0
   \<and> followsCount (cstate (run card_p1 [Click_follow, Settle 3 (Toggle_out (Fulfilled no_error)),
                                    Click_follow, Settle 3 (Toggle_out (Fulfilled no_error))]
                        (mounted card_p1))) = 0"
proof -
  have s: "succeeded (Fulfilled (no_error :: unit response))"
    by (simp add: succeeded_def no_error_def)
  have a: "isLiked (cstate (mounted card_p1)) = False" "likesCount (cstate (mounted card_p1)) = 0"
    "isFollowing (cstate (mounted card_p1)) = False" "followsCount (cstate (mounted card_p1)) = 0"
    by (simp_all add: mounted_def initial_state_def)
  have l: "length (inflight (mounted card_p1)) = 3"
    by (simp add: mounted_def)
  show ?thesis
    using toggle_on_then_off_restores [OF s s a, of card_p1] s a by (simp add: l)
qed

subsection \<open>The media hooks without a user\<close>

text \<open>
  Claim C10. In \<^verbatim>\<open>useMediaLike\<close> and \<^verbatim>\<open>useCreatorFollow\<close>, with \<open>user\<close> null the
  toggle performs no action at all: no query is sent and no setter is called, so the
  state of the hook is the one before, whatever it was.
\<close>

theorem media_toggle_without_user:
  "toggleLike_m_sync mediaId None snap = []
   \<and> set_likes (toggleLike_m_sync mediaId None snap) s = s
   \<and> toggleFollow_c_sync creatorId None snap' = []
   \<and> set_follows (toggleFollow_c_sync creatorId None snap') s' = s'"
  by (simp add: toggleLike_m_sync_def toggleFollow_c_sync_def)

subsection \<open>Toggles while a toggle is in flight\<close>

text \<open>
  Claim C3, as amended. No toggle reads a pending flag: ProfileCard has none, and the
  media hooks set \<^verbatim>\<open>loading\<close> without reading it. So every click on the like or
  follow button of a ProfileCard, whatever is in flight already, applies its optimistic
  update to the state, sends its own query and adds its own await to those in flight;
  and every \<^verbatim>\<open>toggleLike\<close> of \<^verbatim>\<open>useMediaLike\<close> and every \<^verbatim>\<open>toggleFollow\<close> of
  \<^verbatim>\<open>useCreatorFollow\<close> with a signed-in user applies its optimistic update, sets
  \<^verbatim>\<open>loading\<close> and sends exactly one query, also when the snapshot's \<^verbatim>\<open>loading\<close> is
  true.
\<close>

theorem every_toggle_sends_its_query:
  "sent (step p Click_like c)
     = sent c @ [Send (if isLiked (cstate c)
                       then Query Delete_rows ''likes''
                              [(''profile_id'', profile_id p), (''user_id'', currentUserId p)]
                       else Query Insert_row ''likes''
                              [(''profile_id'', profile_id p), (''user_id'', currentUserId p)])]
   \<and> inflight (step p Click_like c) = inflight c @ [Toggle_like (cstate c)]
   \<and> sent (step p Click_follow c)
     = sent c @ [Send (if isFollowing (cstate c)
                       then Query Delete_rows ''follows''
                              [(''following_id'', profile_id p), (''follower_id'', currentUserId p)]
                       else Query Insert_row ''follows''
                              [(''following_id'', profile_id p), (''follower_id'', currentUserId p)])]
   \<and> inflight (step p Click_follow c) = inflight c @ [Toggle_follow (cstate c)]
   \<and> filter is_send (toggleLike_m_sync mediaId (Some uid) snap)
     = [Send (if isLiked_m snap
              then Query Delete_rows ''media_likes'' [(''media_id'', mediaId), (''user_id'', uid)]
              else Query Insert_row ''media_likes'' [(''media_id'', mediaId), (''user_id'', uid)])]
   \<and> cstate (step p Click_like c)
     = (cstate c)\<lparr>isLiked := \<not> isLiked (cstate c),
          likesCount := (if isLiked (cstate c) then likesCount (cstate c) - 1
                         else likesCount (cstate c) + 1)\<rparr>
   \<and> cstate (step p Click_follow c)
     = (cstate c)\<lparr>isFollowing := \<not> isFollowing (cstate c),
          followsCount := (if isFollowing (cstate c) then followsCount (cstate c) - 1
                           else followsCount (cstate c) + 1)\<rparr>
   \<and> set_likes (toggleLike_m_sync mediaId (Some uid) snap) s
     = s\<lparr>isLiked_m := \<not> isLiked_m snap,
          likesCount_m := (if isLiked_m snap then likesCount_m snap - 1
                           else likesCount_m snap + 1),
          loading_m := True\<rparr>
   \<and> filter is_send (toggleFollow_c_sync creatorId (Some uid) snap')
     = [Send (if isFollowing_c snap'
              then Query Delete_rows ''creator_follows''
                     [(''creator_id'', creatorId), (''follower_id'', uid)]
              else Query Insert_row ''creator_follows''
                     [(''creator_id'', creatorId), (''follower_id'', uid)])]
   \<and> set_follows (toggleFollow_c_sync creatorId (Some uid) snap') s'
     = s'\<lparr>isFollowing_c := \<not> isFollowing_c snap',
           followsCount_c := (if isFollowing_c snap' then followsCount_c snap' - 1
                              else followsCount_c snap' + 1),
           loading_c := True\<rparr>"
  by (simp add: sent_exec sent_await await_sel exec_sel toggleLike_sync_def toggleFollow_sync_def
      toggleLike_m_sync_def toggleFollow_c_sync_def)

text \<open>
  The claim as stated fails: two clicks on the like button of a freshly mounted card,
  with no await settled in between, send an insert and then a delete (after the six
  queries of the effect) and leave five awaits in flight, two of them toggles; and
  \<^verbatim>\<open>toggleLike\<close> of \<^verbatim>\<open>useMediaLike\<close> called with \<^verbatim>\<open>loading\<close> true sends its delete.
\<close>

theorem second_toggle_is_not_ignored:
  "drop 6 (sent (run card_p1 [Click_like, Click_like] (mounted card_p1)))
     = [Send (Query Insert_row ''likes'' [(''profile_id'', ''p1''), (''user_id'', ''u1'')]),
        Send (Query Delete_rows ''likes'' [(''profile_id'', ''p1''), (''user_id'', ''u1'')])]
   \<and> length (inflight (run card_p1 [Click_like, Click_like] (mounted card_p1))) = 5
   \<and> filter is_send
        (toggleLike_m_sync ''m1'' (Some ''u1'')
           \<lparr>isLiked_m = True, likesCount_m = 1, loading_m = True\<rparr>)
     = [Send (Query Delete_rows ''media_likes'' [(''media_id'', ''m1''), (''user_id'', ''u1'')])]"
  by (simp add: run_Cons run_Nil sent_exec sent_await await_sel exec_sel toggleLike_sync_def
      toggleLike_m_sync_def mounted_def sent_def effect_body_def fetchCounts_sync_def
      fetchUserStatus_sync_def fetchComments_sync_def card_p1_def initial_state_def)

subsection \<open>A notification re-fetches the counts\<close>

text \<open>After a notification answered by the store, the three counters are the store's
  counts for the profile, whatever they were.\<close>

lemma refetch_counts:
  "cstate (refetch p t st c)
   = (cstate c)\<lparr>likesCount := int (likes_total (profile_id p) (likes st)),
        followsCount := int (length (filter (\<lambda>r. snd r = profile_id p) (follows st))),
        commentsCount :=
          int (length (filter (\<lambda>r. row_profile_id r = profile_id p) (comment_rows st)))\<rparr>"
  by (simp add: refetch_def Let_def await_def exec_def fetchCounts_sync_def answer_count_def
      rows_counted_def remove_nth_def fetchCounts_resume_def finish_def or_zero_def
      cstate_continue_handler)

text \<open>
  Claim C4. A notification on any of the three filters of the card's channel starts the
  handler, which sends the exact-count selects on \<^verbatim>\<open>likes\<close>, \<^verbatim>\<open>follows\<close> and
  \<^verbatim>\<open>comments\<close> for the profile and awaits them. When the store answers these queries,
  the state holds the store's counts at that moment, whatever it held before: after
  \<open>refetch\<close>, \<open>likesCount\<close> is the number of rows of \<^verbatim>\<open>likes\<close> for the profile, and
  likewise \<open>followsCount\<close> and \<open>commentsCount\<close>. And whenever an awaited
  \<^verbatim>\<open>fetchCounts\<close> settles with the counts \<open>l\<close>, \<open>f\<close> and \<open>k\<close>, at whatever later
  moment and whatever else is in flight, the state holds \<open>likesCount = l\<close>,
  \<open>followsCount = f\<close> and \<open>commentsCount = k\<close>.
\<close>

theorem feed_refetch_overwrites_counts:
  assumes "i < length (inflight c)" and "inflight c ! i = Fetch_counts nxt"
  shows "sent (step p (Feed t) d) = sent d @ fetchCounts_sync p
       \<and> inflight (step p (Feed t) d) = inflight d @ [Fetch_counts (handler_next t)]
       \<and> likesCount (cstate (step p (Settle i (Counts_out (Fulfilled (lr\<lparr>count := Some l\<rparr>))
              (Fulfilled (fr\<lparr>count := Some f\<rparr>)) (Fulfilled (kr\<lparr>count := Some k\<rparr>)))) c)) = int l
       \<and> followsCount (cstate (step p (Settle i (Counts_out (Fulfilled (lr\<lparr>count := Some l\<rparr>))
              (Fulfilled (fr\<lparr>count := Some f\<rparr>)) (Fulfilled (kr\<lparr>count := Some k\<rparr>)))) c)) = int f
       \<and> commentsCount (cstate (step p (Settle i (Counts_out (Fulfilled (lr\<lparr>count := Some l\<rparr>))
              (Fulfilled (fr\<lparr>count := Some f\<rparr>)) (Fulfilled (kr\<lparr>count := Some k\<rparr>)))) c)) = int k
       \<and> sent (step p (Feed t) d)
           = sent d @ [Send (Query Select_count ''likes'' [(''profile_id'', profile_id p)]),
                       Send (Query Select_count ''follows'' [(''following_id'', profile_id p)]),
                       Send (Query Select_count ''comments'' [(''profile_id'', profile_id p)])]
       \<and> likesCount (cstate (refetch p t st d)) = int (likes_total (profile_id p) (likes st))
       \<and> followsCount (cstate (refetch p t st d))
           = int (length (filter (\<lambda>r. snd r = profile_id p) (follows st)))
       \<and> commentsCount (cstate (refetch p t st d))
           = int (length (filter (\<lambda>r. row_profile_id r = profile_id p) (comment_rows st)))"
  unfolding counts_settled [OF assms] refetch_counts
  by (simp add: sent_exec sent_await await_sel exec_sel fetchCounts_sync_def or_zero_Some)

theorem feed_refetch_overwrites_counts_witness:
  "3 < length (inflight (step card_p1 (Feed Likes) (mounted card_p1)))
   \<and> inflight (step card_p1 (Feed Likes) (mounted card_p1)) ! 3 = Fetch_counts Then_status
   \<and> likesCount (cstate (step card_p1 (Settle 3 (Counts_out
         (Fulfilled (no_error\<lparr>count := Some 7\<rparr>)) (Fulfilled (no_error\<lparr>count := Some 2\<rparr>))
         (Fulfilled (no_error\<lparr>count := Some 0\<rparr>))))
         (step card_p1 (Feed Likes) (mounted card_p1)))) = 7
   \<and> likesCount (cstate (refetch card_p1 Likes store_p1 (mounted card_p1))) = 3"
proof -
  have a: "3 < length (inflight (step card_p1 (Feed Likes) (mounted card_p1)))"
    by (simp add: await_sel exec_sel mounted_def)
  have b: "inflight (step card_p1 (Feed Likes) (mounted card_p1)) ! 3 = Fetch_counts Then_status"
    by (simp add: await_sel exec_sel mounted_def)
  have n: "likes_total (profile_id card_p1) (likes store_p1) = 3"
    by (simp add: likes_total_def store_p1_def card_p1_def)
  note all = feed_refetch_overwrites_counts [OF a b, where p = card_p1 and lr = no_error
      and l = 7 and fr = no_error and f = 2 and kr = no_error and k = 0 and t = Likes
      and st = store_p1 and d = "mounted card_p1"]
  have c: "likesCount (cstate (step card_p1 (Settle 3 (Counts_out
             (Fulfilled (no_error\<lparr>count := Some 7\<rparr>)) (Fulfilled (no_error\<lparr>count := Some 2\<rparr>))
             (Fulfilled (no_error\<lparr>count := Some 0\<rparr>))))
             (step card_p1 (Feed Likes) (mounted card_p1)))) = int 7"
    by (rule all [THEN conjunct2, THEN conjunct2, THEN conjunct1])
  have d: "likesCount (cstate (refetch card_p1 Likes store_p1 (mounted card_p1)))
           = int (likes_total (profile_id card_p1) (likes store_p1))"
    by (rule all [THEN conjunct2, THEN conjunct2, THEN conjunct2, THEN conjunct2,
          THEN conjunct2, THEN conjunct2, THEN conjunct1])
  show ?thesis
    by (intro conjI a b c [unfolded of_nat_numeral] d [unfolded n of_nat_numeral])
qed

subsection \<open>A rejected promise\<close>

text \<open>When the promise a toggle awaits rejects, the \<^verbatim>\<open>catch\<close> block writes the values
  the closure captured at the click, whatever the state has become since, and nothing
  is thrown on.\<close>

lemma rejection_restores_snapshot:
  assumes "i < length (inflight c)" and "inflight c ! i = Toggle_like snap"
  shows "isLiked (cstate (step p (Settle i (Toggle_out (Rejected e))) c)) = isLiked snap
       \<and> likesCount (cstate (step p (Settle i (Toggle_out (Rejected e))) c)) = likesCount snap
       \<and> rejections (step p (Settle i (Toggle_out (Rejected e))) c) = rejections c"
  using assms by (simp add: toggleLike_resume_def finish_def exec_def)

text \<open>When the promise \<^verbatim>\<open>addComment\<close> awaits rejects, every comment carrying the
  temporary id is filtered out and \<open>commentsCount\<close> is set to the captured value.\<close>

lemma rejection_discards_placeholder:
  assumes "i < length (inflight c)" and "inflight c ! i = Add_comment snap tempId"
  shows "comments (cstate (step p (Settle i (Insert_out (Rejected e))) c))
           = discard tempId (comments (cstate c))
       \<and> commentsCount (cstate (step p (Settle i (Insert_out (Rejected e))) c))
           = commentsCount snap
       \<and> rejections (step p (Settle i (Insert_out (Rejected e))) c) = rejections c"
  using assms by (simp add: addComment_resume_def finish_def exec_def)

subsection \<open>A failure reported in the response\<close>

text \<open>
  Claim C1, at the input where the code departs from it. A card shows \<open>isLiked = False\<close>
  and \<open>likesCount = 0\<close>; the like button is clicked; the insert fails with a unique
  violation, which the awaited promise reports by fulfilling with the \<open>error\<close> field
  set. \<^verbatim>\<open>toggleLike\<close> never reads the awaited value, and its \<^verbatim>\<open>catch\<close> block runs on a
  rejection only: the state stays \<open>isLiked = True\<close>, \<open>likesCount = 1\<close>. The same holds
  for \<^verbatim>\<open>toggleLike\<close> of \<^verbatim>\<open>useMediaLike\<close>.
\<close>

theorem error_response_leaves_optimistic_like:
  "failed (Fulfilled (unique_violation :: unit response))
   \<and> isLiked (cstate (mounted card_p1)) = False
   \<and> likesCount (cstate (mounted card_p1)) = 0
   \<and> isLiked (cstate (run card_p1
          [Click_like, Settle 3 (Toggle_out (Fulfilled unique_violation))] (mounted card_p1))) = True
   \<and> likesCount (cstate (run card_p1
          [Click_like, Settle 3 (Toggle_out (Fulfilled unique_violation))] (mounted card_p1))) = 1
   \<and> set_likes (fst (toggleLike_m_resume \<lparr>isLiked_m = False, likesCount_m = 0, loading_m = False\<rparr>
                       (Fulfilled (unique_violation :: unit response))))
        (set_likes (toggleLike_m_sync ''m1'' (Some ''u1'')
                      \<lparr>isLiked_m = False, likesCount_m = 0, loading_m = False\<rparr>)
           \<lparr>isLiked_m = False, likesCount_m = 0, loading_m = False\<rparr>)
      = \<lparr>isLiked_m = True, likesCount_m = 1, loading_m = False\<rparr>"
  by (simp add: run_Cons run_Nil failed_def unique_violation_def mounted_def initial_state_def
      await_def exec_def finish_def remove_nth_def toggleLike_sync_def toggleLike_resume_def
      toggleLike_m_sync_def toggleLike_m_resume_def)

text \<open>
  Claim C7, at the input where the code departs from it. The comment \<^verbatim>\<open>hi\<close> is
  submitted on a card with no comments; the insert does not reach the store, which the
  awaited promise reports by fulfilling with \<open>data\<close> null and the \<open>error\<close> field set.
  \<^verbatim>\<open>if (data)\<close> skips the reconciliation and nothing else is done: the placeholder
  \<^verbatim>\<open>temp-1000\<close> stays in the list and \<open>commentsCount\<close> stays 1.
\<close>

theorem error_response_leaves_placeholder:
  "failed (Fulfilled (fetch_failed :: comment_row response))
   \<and> comments (cstate (mounted card_p1)) = []
   \<and> commentsCount (cstate (mounted card_p1)) = 0
   \<and> comments (cstate (run card_p1
          [Type_comment ''hi'', Submit_comment 1000 ''2024-05-01T10:00:00.000Z'',
           Settle 3 (Insert_out (Fulfilled fetch_failed))] (mounted card_p1)))
      = [\<lparr>comment_id = ''temp-1000'', content = ''hi'', user_id = ''u1'',
           created_at = Some ''2024-05-01T10:00:00.000Z''\<rparr>]
   \<and> commentsCount (cstate (run card_p1
          [Type_comment ''hi'', Submit_comment 1000 ''2024-05-01T10:00:00.000Z'',
           Settle 3 (Insert_out (Fulfilled fetch_failed))] (mounted card_p1))) = 1"
  by (simp add: run_Cons run_Nil failed_def fetch_failed_def mounted_def initial_state_def
      await_def exec_def finish_def remove_nth_def addComment_sync_def addComment_resume_def
      trim_def is_space_def tempId_of_def digit_def card_p1_def Let_def)

subsection \<open>The own write and its notification\<close>



subsection \<open>The sign of the counters\<close>

lemma snapshots_ok_append:
  "snapshots_ok (ws @ [w])
   = (snapshots_ok ws \<and> (case snapshot w of None \<Rightarrow> True | Some snap \<Rightarrow> counts_ok snap))"
  by (simp add: snapshots_ok_def)

lemma snapshots_ok_remove_nth: "snapshots_ok ws \<Longrightarrow> snapshots_ok (remove_nth i ws)"
  unfolding snapshots_ok_def remove_nth_def list_all_iff
  by (auto dest: in_set_takeD in_set_dropD)

lemma snapshots_ok_nth:
  "snapshots_ok ws \<Longrightarrow> i < length ws \<Longrightarrow> snapshot (ws ! i) = Some snap \<Longrightarrow> counts_ok snap"
  unfolding snapshots_ok_def list_all_iff
  by (metis nth_mem option.simps(5))

lemma invariant_click_like:
  assumes "counts_invariant c" and "toggle_allowed Click_like (cstate c)"
  shows "counts_invariant (step p Click_like c)"
  using assms
  by (auto simp: counts_invariant_def await_sel exec_sel snapshots_ok_append toggleLike_sync_def
      counts_ok_def)

lemma invariant_click_follow:
  assumes "counts_invariant c" and "toggle_allowed Click_follow (cstate c)"
  shows "counts_invariant (step p Click_follow c)"
  using assms
  by (auto simp: counts_invariant_def await_sel exec_sel snapshots_ok_append
      toggleFollow_sync_def counts_ok_def)

lemma invariant_simple:
  assumes "counts_invariant c"
  shows "counts_invariant (step p Click_comments c)"
    and "counts_invariant (step p (Type_comment t) c)"
    and "counts_invariant (step p (Feed tb) c)"
  using assms
  by (simp_all add: counts_invariant_def await_sel exec_sel snapshots_ok_append
      fetchCounts_sync_def counts_ok_def)

lemma invariant_submit:
  assumes "counts_invariant c"
  shows "counts_invariant (step p (Submit_comment now stamp) c)"
  using assms
  by (simp add: counts_invariant_def await_sel exec_sel snapshots_ok_append addComment_sync_def
      counts_ok_def Let_def)

lemma or_zero_nonneg: "0 \<le> or_zero n"
  by (simp add: or_zero_def split: option.split)

lemma invariant_continue_handler:
  "counts_invariant c \<Longrightarrow> counts_invariant (continue_handler p nxt c)"
  by (cases nxt)
    (simp_all add: counts_invariant_def await_sel exec_sel snapshots_ok_append
      fetchUserStatus_sync_def fetchComments_sync_def)

text \<open>A rollback restores counters a closure captured, and those were not negative
  when it captured them; a fetch writes counts of rows.\<close>

lemma invariant_resume:
  assumes "counts_ok (cstate c)" and "snapshots_ok (inflight c)"
    and "case snapshot w of None \<Rightarrow> True | Some snap \<Rightarrow> counts_ok snap"
    and "resume p w out c = Some c'"
  shows "counts_invariant c'"
proof (cases w)
  case (Toggle_like snap)
  with assms show ?thesis
    by (cases out)
      (auto simp: counts_invariant_def finish_def exec_sel toggleLike_resume_def counts_ok_def
        split: settled.splits)
next
  case (Toggle_follow snap)
  with assms show ?thesis
    by (cases out)
      (auto simp: counts_invariant_def finish_def exec_sel toggleFollow_resume_def counts_ok_def
        split: settled.splits)
next
  case (Add_comment snap tid)
  with assms show ?thesis
    by (cases out)
      (auto simp: counts_invariant_def finish_def exec_sel addComment_resume_def counts_ok_def
        split: settled.splits option.splits)
next
  case (Fetch_counts nxt)
  show ?thesis
  proof (cases out)
    case (Counts_out l f k)
    let ?r = "fetchCounts_resume l f k"
    have fin: "counts_invariant (finish ?r c)"
      using assms(1,2)
      by (auto simp: fetchCounts_resume_def finish_def exec_sel counts_invariant_def
          counts_ok_def or_zero_nonneg split: settled.splits)
    have "c' = (case snd ?r of Returns \<Rightarrow> continue_handler p nxt (finish ?r c)
                | Throws e \<Rightarrow> finish ?r c)"
      using assms(4) Fetch_counts Counts_out by (simp add: Let_def)
    then show ?thesis
      using fin by (cases "snd ?r") (simp_all add: invariant_continue_handler)
  qed (use assms(4) Fetch_counts in simp_all)
next
  case Fetch_status
  with assms show ?thesis
    by (cases out)
      (auto simp: counts_invariant_def finish_def exec_sel fetchUserStatus_resume_def
        counts_ok_def split: settled.splits)
next
  case Fetch_comments
  with assms show ?thesis
    by (cases out)
      (auto simp: counts_invariant_def finish_def exec_sel fetchComments_resume_def
        counts_ok_def split: settled.splits)
qed

lemma invariant_step:
  assumes "counts_invariant c" and "toggle_allowed e (cstate c)"
  shows "counts_invariant (step p e c)"
proof (cases e)
  case Click_like
  with assms show ?thesis by (simp only: invariant_click_like)
next
  case Click_follow
  with assms show ?thesis by (simp only: invariant_click_follow)
next
  case Click_comments
  with assms show ?thesis by (simp only: invariant_simple)
next
  case (Type_comment t)
  with assms show ?thesis by (simp only: invariant_simple)
next
  case (Submit_comment now stamp)
  with assms show ?thesis by (simp only: invariant_submit)
next
  case (Feed tb)
  with assms show ?thesis by (simp only: invariant_simple)
next
  case (Settle i out)
  show ?thesis
  proof (cases "i < length (inflight c)")
    case False
    with assms Settle show ?thesis by simp
  next
    case True
    let ?d = "c\<lparr>inflight := remove_nth i (inflight c)\<rparr>"
    show ?thesis
    proof (cases "resume p (inflight c ! i) out ?d")
      case None
      with assms Settle True show ?thesis by simp
    next
      case (Some c')
      have a: "counts_ok (cstate ?d)" "snapshots_ok (inflight ?d)"
        using assms(1) by (simp_all add: counts_invariant_def snapshots_ok_remove_nth)
      have b: "case snapshot (inflight c ! i) of None \<Rightarrow> True | Some snap \<Rightarrow> counts_ok snap"
        using assms(1) True
        by (auto simp: counts_invariant_def split: option.split dest: snapshots_ok_nth)
      have "counts_invariant c'"
        by (rule invariant_resume [OF a b Some])
      with Settle True Some show ?thesis by simp
    qed
  qed
qed

lemma invariant_run:
  "counts_invariant c \<Longrightarrow> guarded p es c \<Longrightarrow> counts_invariant (run p es c)"
proof (induction es arbitrary: c)
  case Nil
  then show ?case by (simp add: run_Nil)
next
  case (Cons e es)
  then show ?case by (simp add: run_Cons invariant_step)
qed

lemma invariant_mounted: "counts_invariant (mounted p)"
  by (simp add: counts_invariant_def mounted_def initial_state_def counts_ok_def snapshots_ok_def)

text \<open>
  Claim C8, as amended. Nothing clamps the optimistic decrement. In every state a
  mounted card reaches through clicks, key strokes, submitted comments, notifications
  and settled awaits (fulfilled or rejected, in any order), the three counters are
  integers not below 0, provided no un-like is clicked while \<open>likesCount\<close> is below 1
  and no un-follow while \<open>followsCount\<close> is below 1.
\<close>

theorem counts_stay_nonnegative:
  assumes "guarded p es (mounted p)"
  shows "0 \<le> likesCount (cstate (run p es (mounted p)))
       \<and> 0 \<le> followsCount (cstate (run p es (mounted p)))
       \<and> 0 \<le> commentsCount (cstate (run p es (mounted p)))"
  using invariant_run [OF invariant_mounted assms] by (simp add: counts_invariant_def counts_ok_def)

theorem counts_stay_nonnegative_witness:
  "guarded card_p1 [Click_like, Click_like] (mounted card_p1)
   \<and> 0 \<le> likesCount (cstate (run card_p1 [Click_like, Click_like] (mounted card_p1)))"
proof -
  have g: "guarded card_p1 [Click_like, Click_like] (mounted card_p1)"
    by (simp add: mounted_def initial_state_def await_sel exec_sel toggleLike_sync_def)
  show ?thesis
    using counts_stay_nonnegative [OF g] g by simp
qed

text \<open>
  The claim as stated fails: on a freshly mounted card the status fetch settles first
  and finds the user's like, so the card shows \<open>isLiked = True\<close> with \<open>likesCount\<close>
  still 0; a click on the like button then sets \<open>likesCount\<close> to \<open>-1\<close>.
\<close>

theorem unlike_at_zero_goes_negative:
  "likesCount (cstate (run card_p1
      [Settle 1 (Status_out (Fulfilled (no_error\<lparr>data := Some ()\<rparr>)) (Fulfilled no_error)),
       Click_like] (mounted card_p1))) = - 1"
  by (simp add: run_Cons run_Nil mounted_def initial_state_def remove_nth_def
      fetchUserStatus_resume_def finish_def exec_def await_def toggleLike_sync_def no_error_def)

subsection \<open>Two comments appended in a row\<close>












text \<open>Two placeholders made within one millisecond carry the same temporary id: the
  first insert to succeed gives its row's id and timestamp to both, and the second finds
  no placeholder left.\<close>

lemma shared_tempId_takes_one_row:
  "comments (cstate (run card_p1
      [Type_comment ''A'', Submit_comment 1000 ''t0'',
       Type_comment ''B'', Submit_comment 1000 ''t1'',
       Settle 3 (Insert_out (Fulfilled (no_error\<lparr>data := Some row_a1\<rparr>))),
       Settle 3 (Insert_out (Fulfilled (no_error\<lparr>data := Some row_b2\<rparr>)))]
      (mounted card_p1)))
   = [\<lparr>comment_id = ''a1'', content = ''B'', user_id = ''u1'',
        created_at = Some ''2024-05-01T10:00:00.200Z''\<rparr>,
      \<lparr>comment_id = ''a1'', content = ''A'', user_id = ''u1'',
        created_at = Some ''2024-05-01T10:00:00.200Z''\<rparr>]"
  by (simp add: run_Cons run_Nil mounted_def initial_state_def await_def exec_def finish_def
      remove_nth_def addComment_sync_def addComment_resume_def Let_def reconcile_def trim_def
      is_space_def tempId_of_def digit_def card_p1_def no_error_def row_a1_def row_b2_def)

subsection \<open>Awaits that settle after the unmount\<close>
























end
